theory Spec2Isabelle
  imports Complex_Main "HOL-Library.AList"
begin

section \<open>Strings and numbers of the page\<close>

text \<open>
  A JavaScript string is a sequence of UTF-16 code units; a code unit is modelled as a
  natural number and a string as a list of them, so that \<open>length\<close> is the source's
  \<^verbatim>\<open>.length\<close>. A JavaScript number is modelled as a real (the arithmetic of the
  page is read as exact arithmetic, not as IEEE doubles); the integers the page handles
  (list lengths, hit counts, clock readings) are \<open>nat\<close> or \<open>int\<close>.
\<close>

type_synonym js_string = "nat list"

definition lit :: "string \<Rightarrow> js_string" where
  "lit s = map of_char s"

text \<open>The character classes of the regular expressions \<^verbatim>\<open>[a-z]\<close>, \<^verbatim>\<open>[0-9]\<close> and \<^verbatim>\<open>\s\<close>
  (white space and line terminators of ECMAScript; \<^verbatim>\<open>trim\<close> strips the same set).\<close>

definition is_az :: "nat \<Rightarrow> bool" where
  "is_az c = (97 \<le> c \<and> c \<le> 122)"

definition is_09 :: "nat \<Rightarrow> bool" where
  "is_09 c = (48 \<le> c \<and> c \<le> 57)"

definition is_space :: "nat \<Rightarrow> bool" where
  "is_space c =
     ((9 \<le> c \<and> c \<le> 13) \<or> c = 32 \<or> c = 160 \<or> c = 5760 \<or> (8192 \<le> c \<and> c \<le> 8202)
      \<or> c = 8232 \<or> c = 8233 \<or> c = 8239 \<or> c = 8287 \<or> c = 12288 \<or> c = 65279)"

text \<open>
  \<^verbatim>\<open>String.prototype.toLowerCase\<close>. The letters A to Z go to a to z; the two other
  code units whose lower case holds a letter of a to z are U+0130 (to i followed by
  U+0307) and the Kelvin sign U+212A (to k). Every other code unit is mapped by the
  Unicode tables to code units outside \<^verbatim>\<open>[a-z0-9]\<close> and keeps its white-space
  class; the tables are not reproduced for them and the code unit is left as it is.
  This is the lower-casing as \<^verbatim>\<open>analyzeText\<close> sees it, where the replacement that
  follows turns all those code units into separators. \<^verbatim>\<open>buildInsights\<close> lower-cases
  the label of an arbitrary cluster, where the whole table matters: there the
  lower-casing of the runtime is an argument.
  \<^verbatim>\<open>toUpperCase\<close> is only ever applied to the first code unit of a keyword,
  which is one of a to z and 0 to 9, and is modelled on a to z.
\<close>

definition lower_unit :: "nat \<Rightarrow> js_string" where
  "lower_unit c =
     (if 65 \<le> c \<and> c \<le> 90 then [c + 32]
      else if c = 304 then [105, 775]
      else if c = 8490 then [107]
      else [c])"

definition toLowerCase :: "js_string \<Rightarrow> js_string" where
  "toLowerCase s = concat (map lower_unit s)"

definition toUpperCase :: "js_string \<Rightarrow> js_string" where
  "toUpperCase s = map (\<lambda>c. if is_az c then c - 32 else c) s"

definition trim :: "js_string \<Rightarrow> js_string" where
  "trim s = rev (dropWhile is_space (rev (dropWhile is_space s)))"

text \<open>\<^verbatim>\<open>.replace(/[^a-z0-9\s]/g, " ")\<close>\<close>

definition replace_non_alnum :: "js_string \<Rightarrow> js_string" where
  "replace_non_alnum s = map (\<lambda>c. if is_az c \<or> is_09 c \<or> is_space c then c else 32) s"

text \<open>
  \<^verbatim>\<open>.split(/\s+/)\<close>: the pieces between the maximal runs of white space. A run at the
  start or at the end leaves an empty piece there, and the empty string splits into one
  empty piece. The first argument is the piece read so far.
\<close>

function split_ws_from :: "js_string \<Rightarrow> js_string \<Rightarrow> js_string list" where
  "split_ws_from cur [] = [cur]"
| "split_ws_from cur (c # cs) =
     (if is_space c then cur # split_ws_from [] (dropWhile is_space cs)
      else split_ws_from (cur @ [c]) cs)"
  by pat_completeness auto
termination
  by (relation "measure (\<lambda>(cur, s). length s)") (auto simp: less_Suc_eq_le length_dropWhile_le)

definition split_ws :: "js_string \<Rightarrow> js_string list" where
  "split_ws s = split_ws_from [] s"

text \<open>Decimal rendering of an integer, as a template literal renders an integral number.\<close>

fun digits :: "nat \<Rightarrow> js_string" where
  "digits n = (if n < 10 then [48 + n] else digits (n div 10) @ [48 + n mod 10])"

declare digits.simps [simp del]

definition number_to_string :: "int \<Rightarrow> js_string" where
  "number_to_string i = (if i < 0 then 45 # digits (nat (- i)) else digits (nat i))"

definition clamp :: "real \<Rightarrow> real \<Rightarrow> real \<Rightarrow> real" where
  "clamp v lo hi = min hi (max lo v)"

definition capitalize :: "js_string \<Rightarrow> js_string" where
  "capitalize input = toUpperCase (take 1 input) @ drop 1 input"

section \<open>Records and constants\<close>

record TranscriptSegment =
  seg_id :: js_string
  seg_text :: js_string
  seg_timestamp :: int

record Insight =
  ins_id :: js_string
  ins_label :: js_string
  ins_detail :: js_string
  ins_pulse :: real
  ins_delta :: real

record Cluster =
  cl_label :: js_string
  cl_score :: real
  cl_summary :: js_string

record Analysis =
  keywords_list :: "js_string list"
  sentiment :: real
  energy :: real
  clusters :: "Cluster list"

definition STOP_WORDS :: "js_string list" where
  "STOP_WORDS = map lit
     [''the'', ''and'', ''that'', ''have'', ''this'', ''with'', ''from'', ''your'', ''about'',
      ''there'', ''what'', ''when'', ''will'', ''would'', ''could'', ''should'', ''which'',
      ''into'', ''over'', ''under'', ''while'', ''where'', ''been'', ''were'', ''them'',
      ''they'', ''then'', ''than'', ''just'', ''like'', ''really'', ''maybe'', ''know'',
      ''want'', ''need'', ''please'']"

definition POSITIVE_TERMS :: "js_string list" where
  "POSITIVE_TERMS = map lit
     [''great'', ''good'', ''awesome'', ''excited'', ''optimistic'', ''love'', ''amazing'',
      ''win'', ''growth'', ''positive'', ''up'', ''better'', ''improve'', ''success'',
      ''increase'']"

definition NEGATIVE_TERMS :: "js_string list" where
  "NEGATIVE_TERMS = map lit
     [''bad'', ''problem'', ''issue'', ''concern'', ''stuck'', ''risk'', ''down'', ''decline'',
      ''worse'', ''fail'', ''fear'', ''uncertain'', ''hard'', ''difficult'']"

definition BASE_INSIGHTS :: "Insight list" where
  "BASE_INSIGHTS =
     [\<lparr>ins_id = lit ''baseline-velocity'', ins_label = lit ''Signal Velocity'',
       ins_detail = lit ''Live trendline for how quickly the conversation is evolving.'',
       ins_pulse = 0.48, ins_delta = 0.06\<rparr>,
      \<lparr>ins_id = lit ''baseline-composure'', ins_label = lit ''Agent Composure'',
       ins_detail = lit ''Ambient calm from the voice agent's prosodic fingerprint.'',
       ins_pulse = 0.62, ins_delta = - 0.04\<rparr>,
      \<lparr>ins_id = lit ''baseline-focus'', ins_label = lit ''Focus Field'',
       ins_detail = lit ''Dominant node describing the most coherent cluster in view.'',
       ins_pulse = 0.55, ins_delta = 0.08\<rparr>]"

section \<open>analyzeText\<close>

text \<open>The normalised token sequence (\<^verbatim>\<open>clean\<close> in the source).\<close>

definition keep_token :: "js_string \<Rightarrow> bool" where
  "keep_token token = (token \<noteq> [] \<and> length token > 2 \<and> token \<notin> set STOP_WORDS)"

definition clean_tokens :: "js_string \<Rightarrow> js_string list" where
  "clean_tokens content = filter keep_token (split_ws (replace_non_alnum (toLowerCase content)))"

text \<open>
  The \<^verbatim>\<open>Map\<close> of token counts keeps its keys in the order of their first insertion:
  an association list, where \<open>AList.update\<close> overwrites a present key in place and
  appends an absent one at the end.
\<close>

definition frequency_step :: "(js_string \<times> nat) list \<Rightarrow> js_string \<Rightarrow> (js_string \<times> nat) list" where
  "frequency_step m token =
     AList.update token ((case map_of m token of None \<Rightarrow> 0 | Some n \<Rightarrow> n) + 1) m"

definition frequency :: "js_string list \<Rightarrow> (js_string \<times> nat) list" where
  "frequency clean = foldl frequency_step [] clean"

text \<open>
  \<^verbatim>\<open>Array.prototype.sort\<close> with a comparator. The language requires the sort to be
  stable, and the result of a stable sort under a consistent comparator does not depend
  on the algorithm: it is modelled by insertion from the right, where an element goes in
  front of the first element it does not compare greater than.
\<close>

fun insert_cmp :: "('a \<Rightarrow> 'a \<Rightarrow> int) \<Rightarrow> 'a \<Rightarrow> 'a list \<Rightarrow> 'a list" where
  "insert_cmp cmp x [] = [x]"
| "insert_cmp cmp x (y # ys) =
     (if cmp x y \<le> 0 then x # y # ys else y # insert_cmp cmp x ys)"

fun sort_cmp :: "('a \<Rightarrow> 'a \<Rightarrow> int) \<Rightarrow> 'a list \<Rightarrow> 'a list" where
  "sort_cmp cmp [] = []"
| "sort_cmp cmp (x # xs) = insert_cmp cmp x (sort_cmp cmp xs)"

definition by_count_desc :: "js_string \<times> nat \<Rightarrow> js_string \<times> nat \<Rightarrow> int" where
  "by_count_desc a b = int (snd b) - int (snd a)"

definition extract_keywords :: "js_string list \<Rightarrow> js_string list" where
  "extract_keywords clean = map fst (take 6 (sort_cmp by_count_desc (frequency clean)))"

definition hits :: "js_string list \<Rightarrow> js_string list \<Rightarrow> nat" where
  "hits terms clean = length (filter (\<lambda>token. token \<in> set terms) clean)"

definition sentiment_of :: "js_string list \<Rightarrow> js_string list \<Rightarrow> js_string list \<Rightarrow> real" where
  "sentiment_of pos neg clean =
     clamp ((real (hits pos clean) - real (hits neg clean)) / real (max (length clean) 4)) (- 1) 1"

definition energy_of :: "js_string list \<Rightarrow> real \<Rightarrow> real" where
  "energy_of clean s = clamp (real (length clean) / 45 + \<bar>s\<bar> * 0.45) 0 1"

text \<open>
  The cluster of a keyword. \<open>round\<close> rounds a half upwards, as \<^verbatim>\<open>Math.round\<close> does;
  on exact reals \<open>score * 100\<close> can lie on a half where the double of the page lies just
  below it, so the percentage in the summary can differ by one from the page's.
\<close>

definition make_cluster :: "js_string list \<Rightarrow> real \<Rightarrow> js_string \<Rightarrow> Cluster" where
  "make_cluster clean e keyword =
     (let scoreSeed =
            real (case map_of (frequency clean) keyword of None \<Rightarrow> 1 | Some n \<Rightarrow> n)
              / real (max (length clean) 1);
          score = clamp (scoreSeed * 2 + e * 0.6) 0 1
      in \<lparr>cl_label = capitalize keyword, cl_score = score,
          cl_summary = lit ''Emerging signal around '' @ [8220] @ keyword @ [8221]
            @ lit '' with '' @ number_to_string (round (score * 100)) @ lit ''% clarity.''\<rparr>)"

text \<open>
  \<open>analyzeWith\<close> is \<^verbatim>\<open>analyzeText\<close> with the two term lists as arguments;
  \<open>analyzeText\<close> fixes them to the constants of the page.
\<close>

definition analyzeWith :: "js_string list \<Rightarrow> js_string list \<Rightarrow> js_string \<Rightarrow> Analysis" where
  "analyzeWith pos neg content =
     (let clean = clean_tokens content in
      if length clean = 0 then \<lparr>keywords_list = [], sentiment = 0, energy = 0, clusters = []\<rparr>
      else
        let kws = extract_keywords clean;
            s = sentiment_of pos neg clean;
            e = energy_of clean s
        in \<lparr>keywords_list = kws, sentiment = s, energy = e,
            clusters = map (make_cluster clean e) (take 3 kws)\<rparr>)"

definition analyzeText :: "js_string \<Rightarrow> Analysis" where
  "analyzeText content = analyzeWith POSITIVE_TERMS NEGATIVE_TERMS content"

text \<open>
  Which components a call runs is a matter of the control flow, which the returned value
  does not show. \<open>analyzeWith_log\<close> is \<^verbatim>\<open>analyzeText\<close> once more, statement by
  statement, with a log that every block of the source extends when it is executed: the
  normaliser (lines 173 to 177), then the early return (179 to 186), then the extractor
  (188 to 196), the scorer (198 to 214) and the cluster synthesiser (216 to 225).
\<close>

datatype component = Normalizer | Extractor | Scorer | Synthesizer

definition analyzeWith_log ::
  "js_string list \<Rightarrow> js_string list \<Rightarrow> js_string \<Rightarrow> component list \<times> Analysis" where
  "analyzeWith_log pos neg content =
     (let clean = clean_tokens content;
          log1 = [Normalizer]
      in
      if length clean = 0 then
        (log1, \<lparr>keywords_list = [], sentiment = 0, energy = 0, clusters = []\<rparr>)
      else
        let kws = extract_keywords clean;
            log2 = log1 @ [Extractor];
            s = sentiment_of pos neg clean;
            e = energy_of clean s;
            log3 = log2 @ [Scorer];
            cs = map (make_cluster clean e) (take 3 kws);
            log4 = log3 @ [Synthesizer]
        in (log4, \<lparr>keywords_list = kws, sentiment = s, energy = e, clusters = cs\<rparr>))"

definition analyzeText_log :: "js_string \<Rightarrow> component list \<times> Analysis" where
  "analyzeText_log content = analyzeWith_log POSITIVE_TERMS NEGATIVE_TERMS content"

section \<open>generateAgentReply and buildInsights\<close>

text \<open>\<^verbatim>\<open>Array.prototype.join\<close>\<close>

fun join :: "js_string \<Rightarrow> js_string list \<Rightarrow> js_string" where
  "join sep [] = []"
| "join sep [x] = x"
| "join sep (x # y # ys) = x @ sep @ join sep (y # ys)"

definition generateAgentReply :: "js_string \<Rightarrow> Analysis \<Rightarrow> js_string" where
  "generateAgentReply latestChunk analysis =
     (if trim latestChunk = [] then
        lit ''Ready when you are. Share your thought and I will map the field in real-time.''
      else
        let tone =
              (if sentiment analysis > 0.2 then lit ''Uplifted''
               else if sentiment analysis < - 0.2 then lit ''Cautious''
               else lit ''Neutral'');
            headline =
              join (lit '' '' @ [183] @ lit '' '') (map capitalize (take 2 (keywords_list analysis)));
            trendDirection =
              (if sentiment analysis > 0.15 then lit ''momentum is tilting upward''
               else if sentiment analysis < - 0.15 then lit ''momentum is cooling down''
               else lit ''signal is steady'');
            closing =
              (if energy analysis > 0.7 then lit ''Let's chase that spike before it dissipates.''
               else if energy analysis < 0.3 then
                 lit ''We can probe deeper if you want to expand the field.''
               else lit ''I'm maintaining orbit. Drop another detail when ready.'')
        in tone @ lit '' Grok vector locked. ''
           @ (if headline \<noteq> [] then headline else lit ''Listening'')
           @ lit '' indicates '' @ trendDirection @ lit ''. '' @ closing)"

text \<open>\<^verbatim>\<open>Array.prototype.map\<close> with a callback that also reads the index.\<close>

fun map_index :: "('a \<Rightarrow> nat \<Rightarrow> 'b) \<Rightarrow> nat \<Rightarrow> 'a list \<Rightarrow> 'b list" where
  "map_index f i [] = []"
| "map_index f i (x # xs) = f x i # map_index f (Suc i) xs"

text \<open>
  \<^verbatim>\<open>buildInsights\<close> takes any Analysis, so \<^verbatim>\<open>cluster.label.toLowerCase()\<close> can meet
  any string. The case tables of the runtime are not part of the page: the first
  argument \<open>lower\<close> stands for \<^verbatim>\<open>String.prototype.toLowerCase\<close>.
\<close>

definition dynamic_insight ::
  "(js_string \<Rightarrow> js_string) \<Rightarrow> Analysis \<Rightarrow> Cluster \<Rightarrow> nat \<Rightarrow> Insight" where
  "dynamic_insight lower analysis cluster index =
     \<lparr>ins_id = lit ''cluster-'' @ lower (cl_label cluster),
      ins_label = cl_label cluster @ lit '' Signal'',
      ins_detail = cl_summary cluster,
      ins_pulse = clamp (0.35 + cl_score cluster * 0.55 + real index * 0.1) 0.2 0.95,
      ins_delta =
        clamp (sentiment analysis * 0.6 + cl_score cluster * 0.3 - real index * 0.05) (- 0.4) 0.4\<rparr>"

definition buildInsights :: "(js_string \<Rightarrow> js_string) \<Rightarrow> Analysis \<Rightarrow> Insight list" where
  "buildInsights lower analysis =
     (if length (keywords_list analysis) = 0 then BASE_INSIGHTS
      else take 5
             (map_index (dynamic_insight lower analysis) 0 (clusters analysis) @ BASE_INSIGHTS))"

section \<open>The state of the page and processChunk\<close>

text \<open>
  The \<^verbatim>\<open>useState\<close> cells of \<^verbatim>\<open>Home\<close> and the \<^verbatim>\<open>interimRef\<close> cell as one record;
  \<^verbatim>\<open>analysis\<close> and \<^verbatim>\<open>insights\<close> are memoised functions of \<^verbatim>\<open>compiledText\<close>.
  The state updaters that one call of \<^verbatim>\<open>processChunk\<close> queues are applied in the
  order of the calls, so a call is one transition of the record. \<^verbatim>\<open>Date.now()\<close> is
  read three times in a call; the three readings are arguments of the transition.
\<close>

record Home_state =
  transcript :: js_string
  segments :: "TranscriptSegment list"
  compiledText :: js_string
  agentReply :: js_string
  isListening :: bool
  lastUpdate :: int
  manualInput :: js_string
  interimRef :: js_string

record Clock_reads =
  at_id :: int
  at_timestamp :: int
  at_update :: int

definition initial_state :: "int \<Rightarrow> Home_state" where
  "initial_state now =
     \<lparr>transcript = [], segments = [], compiledText = [],
      agentReply = lit ''Open mic. Speak your idea and I'll plot the Grok visual in real-time.'',
      isListening = False, lastUpdate = now, manualInput = [], interimRef = []\<rparr>"

definition analysis :: "Home_state \<Rightarrow> Analysis" where
  "analysis st = analyzeText (compiledText st)"

definition insights :: "(js_string \<Rightarrow> js_string) \<Rightarrow> Home_state \<Rightarrow> Insight list" where
  "insights lower st = buildInsights lower (analysis st)"

text \<open>\<^verbatim>\<open>.slice(-6)\<close>: the last six elements, or all of them when there are fewer.\<close>

definition slice_last :: "nat \<Rightarrow> 'a list \<Rightarrow> 'a list" where
  "slice_last n xs = drop (length xs - n) xs"

definition new_segment :: "Clock_reads \<Rightarrow> TranscriptSegment list \<Rightarrow> js_string \<Rightarrow> TranscriptSegment" where
  "new_segment now prev trimmed =
     \<lparr>seg_id = number_to_string (at_id now) @ lit ''-'' @ number_to_string (int (length prev)),
      seg_text = trimmed,
      seg_timestamp = at_timestamp now\<rparr>"

definition processChunk :: "Clock_reads \<Rightarrow> js_string \<Rightarrow> Home_state \<Rightarrow> Home_state" where
  "processChunk now content st =
     (let trimmed = trim content in
      if trimmed = [] then st
      else
        let prev = segments st;
            next_text =
              (if compiledText st \<noteq> [] then compiledText st @ lit '' '' @ trimmed else trimmed);
            computed = analyzeText next_text
        in st\<lparr>segments := slice_last 6 (prev @ [new_segment now prev trimmed]),
              compiledText := next_text,
              agentReply := generateAgentReply trimmed computed,
              lastUpdate := at_update now,
              transcript := [],
              interimRef := []\<rparr>)"

definition handleManualSubmit :: "Clock_reads \<Rightarrow> Home_state \<Rightarrow> Home_state" where
  "handleManualSubmit now st =
     (if trim (manualInput st) = [] then st
      else (processChunk now (manualInput st) st)\<lparr>manualInput := []\<rparr>)"

text \<open>A session: the fragments submitted one after the other, each with its clock readings.\<close>

fun run :: "Home_state \<Rightarrow> (Clock_reads \<times> js_string) list \<Rightarrow> Home_state" where
  "run st [] = st"
| "run st ((now, content) # rest) = run (processChunk now content st) rest"

section \<open>Notions the properties are stated with\<close>

text \<open>A fragment that is one word: not empty and without white space.\<close>

definition one_word :: "js_string \<Rightarrow> bool" where
  "one_word w = (w \<noteq> [] \<and> list_all (\<lambda>c. \<not> is_space c) w)"

text \<open>
  The fragments of a session that are accepted (those that do not trim to the empty
  string), in the order of their submission: the trimmed text and the clock reading
  that becomes the timestamp.
\<close>

definition accepted :: "(Clock_reads \<times> js_string) list \<Rightarrow> (js_string \<times> int) list" where
  "accepted evs =
     map (\<lambda>(now, content). (trim content, at_timestamp now))
       (filter (\<lambda>(now, content). trim content \<noteq> []) evs)"

definition text_and_time :: "TranscriptSegment \<Rightarrow> js_string \<times> int" where
  "text_and_time seg = (seg_text seg, seg_timestamp seg)"

text \<open>
  The ranking of the keyword extractor, in the words of the specification: a token
  outranks another when it occurs more often, or as often and is seen first earlier
  (\<open>first_index\<close> is the position of the first occurrence).
\<close>

definition first_index :: "'a list \<Rightarrow> 'a \<Rightarrow> nat" where
  "first_index xs x = length (takeWhile (\<lambda>y. y \<noteq> x) xs)"

definition outranks :: "js_string list \<Rightarrow> js_string \<Rightarrow> js_string \<Rightarrow> bool" where
  "outranks clean a b =
     (count_list clean a > count_list clean b
      \<or> (count_list clean a = count_list clean b \<and> first_index clean a < first_index clean b))"

text \<open>The order a stable descending sort by count leaves: higher count first, and among
  equal counts the order \<open>R\<close> the entries had before.\<close>

definition count_then :: "('a \<times> nat \<Rightarrow> 'a \<times> nat \<Rightarrow> bool) \<Rightarrow> 'a \<times> nat \<Rightarrow> 'a \<times> nat \<Rightarrow> bool" where
  "count_then R a b = (snd a > snd b \<or> (snd a = snd b \<and> R a b))"

text \<open>A call of \<^verbatim>\<open>processChunk\<close> whose three clock readings fall in one millisecond.\<close>

definition all_at :: "int \<Rightarrow> Clock_reads" where
  "all_at t = \<lparr>at_id = t, at_timestamp = t, at_update = t\<rparr>"

text \<open>
  Eight one-word fragments, one per millisecond, but for the last two, which are
  accepted in the same millisecond (two final results of one recognition event).
\<close>

definition eight_words :: "(Clock_reads \<times> js_string) list" where
  "eight_words =
     [(all_at 1000, lit ''one''), (all_at 1001, lit ''two''), (all_at 1002, lit ''three''),
      (all_at 1003, lit ''four''), (all_at 1004, lit ''five''), (all_at 1005, lit ''six''),
      (all_at 1006, lit ''seven''), (all_at 1006, lit ''eight'')]"

section \<open>The lexical normaliser\<close>

lemmas normalizer_defs =
  clean_tokens_def lit_def toLowerCase_def lower_unit_def replace_non_alnum_def
  is_az_def is_09_def is_space_def split_ws_def keep_token_def STOP_WORDS_def

lemma split_ws_from_units:
  "piece \<in> set (split_ws_from cur s) \<Longrightarrow> c \<in> set piece \<Longrightarrow>
     c \<in> set cur \<or> (c \<in> set s \<and> \<not> is_space c)"
proof (induction cur s rule: split_ws_from.induct)
  case (1 cur)
  then show ?case by simp
next
  case (2 cur d ds)
  show ?case
  proof (cases "is_space d")
    case True
    with 2 show ?thesis by (auto dest: set_dropWhileD)
  next
    case False
    with 2 show ?thesis by auto
  qed
qed

lemma replace_non_alnum_units:
  "c \<in> set (replace_non_alnum s) \<Longrightarrow> is_az c \<or> is_09 c \<or> is_space c"
  by (auto simp: replace_non_alnum_def is_space_def)

lemma clean_tokens_units:
  assumes "token \<in> set (clean_tokens content)" and "c \<in> set token"
  shows "is_az c \<or> is_09 c"
proof -
  from assms(1) have "token \<in> set (split_ws_from [] (replace_non_alnum (toLowerCase content)))"
    by (simp add: clean_tokens_def split_ws_def)
  from split_ws_from_units [OF this assms(2)]
  have "c \<in> set (replace_non_alnum (toLowerCase content))" and "\<not> is_space c" by auto
  with replace_non_alnum_units show ?thesis by blast
qed

lemma clean_tokens_keep: "token \<in> set (clean_tokens content) \<Longrightarrow> keep_token token"
  by (simp add: clean_tokens_def)

lemma clean_tokens_empty: "clean_tokens [] = []"
  by (simp add: clean_tokens_def toLowerCase_def replace_non_alnum_def split_ws_def keep_token_def)

lemma tokens_team_wins:
  "clean_tokens (lit ''The Team wins!'') = [[116, 101, 97, 109], [119, 105, 110, 115]]"
  by (simp add: normalizer_defs)

lemma tokens_great_win:
  "clean_tokens (lit ''This is a great win for the team'')
     = [lit ''great'', lit ''win'', lit ''for'', lit ''team'']"
  by (simp add: normalizer_defs)

lemma tokens_great_win_risk:
  "clean_tokens (lit ''This is a great win for the team but I'm worried about the risk'')
     = [lit ''great'', lit ''win'', lit ''for'', lit ''team'', lit ''but'', lit ''worried'', lit ''risk'']"
  by (simp add: normalizer_defs)


text \<open>
  C3. Every token of the normalised sequence is made of the code units a to z and 0 to 9
  only, is longer than two code units and is no stop word; the empty text has no tokens.
\<close>

theorem normalizer_tokens:
  "(\<forall>token \<in> set (clean_tokens content).
      (\<forall>c \<in> set token. is_az c \<or> is_09 c) \<and> length token > 2 \<and> token \<notin> set STOP_WORDS)
   \<and> clean_tokens [] = []"
  using clean_tokens_units clean_tokens_keep clean_tokens_empty
  by (auto simp: keep_token_def)

theorem normalizer_tokens_witness:
  "clean_tokens (lit ''The Team wins!'') = [[116, 101, 97, 109], [119, 105, 110, 115]]
   \<and> list_all (\<lambda>token. list_all (\<lambda>c. is_az c \<or> is_09 c) token \<and> length token > 2
                     \<and> token \<notin> set STOP_WORDS)
         [[116, 101, 97, 109], [119, 105, 110, 115]]"
  using normalizer_tokens [of "lit ''The Team wins!''"]
  by (simp add: tokens_team_wins)

section \<open>The scorer\<close>

lemma clamp_bounds: "lo \<le> hi \<Longrightarrow> lo \<le> clamp v lo hi \<and> clamp v lo hi \<le> hi"
  by (simp add: clamp_def)

lemma sentiment_analyzeWith:
  "sentiment (analyzeWith pos neg content) = sentiment_of pos neg (clean_tokens content)"
  by (simp add: analyzeWith_def Let_def sentiment_of_def hits_def clamp_def)

lemma energy_analyzeWith:
  "energy (analyzeWith pos neg content) =
     energy_of (clean_tokens content) (sentiment (analyzeWith pos neg content))"
  by (simp add: analyzeWith_def Let_def energy_of_def clamp_def)

lemma analyzeWith_log_value:
  "snd (analyzeWith_log pos neg content) = analyzeWith pos neg content"
  by (simp add: analyzeWith_log_def analyzeWith_def Let_def)

lemma analyzeText_log_value: "snd (analyzeText_log content) = analyzeText content"
  by (simp add: analyzeText_log_def analyzeText_def analyzeWith_log_value)




text \<open>
  C2. For every text, with \<open>clean\<close> its token sequence, \<open>positiveHits\<close> and
  \<open>negativeHits\<close> the numbers of occurrences of tokens that are in the positive and in
  the negative term list: the sentiment is
  \<open>clamp ((positiveHits - negativeHits) / max (length clean) 4) (-1) 1\<close>, the energy is
  \<open>clamp (length clean / 45 + |sentiment| * 0.45) 0 1\<close>, the sentiment lies in [-1, 1]
  and the energy in [0, 1].
\<close>

theorem scorer_formulas:
  fixes content :: js_string
  defines "clean \<equiv> clean_tokens content"
  defines "positiveHits \<equiv> length (filter (\<lambda>token. token \<in> set POSITIVE_TERMS) clean)"
  defines "negativeHits \<equiv> length (filter (\<lambda>token. token \<in> set NEGATIVE_TERMS) clean)"
  defines "s \<equiv> sentiment (analyzeText content)"
  defines "e \<equiv> energy (analyzeText content)"
  shows "s = clamp ((real positiveHits - real negativeHits) / real (max (length clean) 4)) (- 1) 1
       \<and> e = clamp (real (length clean) / 45 + \<bar>s\<bar> * 0.45) 0 1
       \<and> - 1 \<le> s \<and> s \<le> 1 \<and> 0 \<le> e \<and> e \<le> 1"
proof -
  have s: "s = clamp ((real positiveHits - real negativeHits) / real (max (length clean) 4)) (- 1) 1"
    unfolding s_def clean_def positiveHits_def negativeHits_def analyzeText_def sentiment_analyzeWith
    by (simp add: sentiment_of_def hits_def)
  have e: "e = clamp (real (length clean) / 45 + \<bar>s\<bar> * 0.45) 0 1"
    unfolding e_def s_def clean_def analyzeText_def
    by (subst energy_analyzeWith) (simp add: energy_of_def)
  have "- 1 \<le> s \<and> s \<le> 1" by (subst (1 2) s) (rule clamp_bounds, simp)
  moreover have "0 \<le> e \<and> e \<le> 1" by (subst (1 2) e) (rule clamp_bounds, simp)
  ultimately show ?thesis using s e by blast
qed

theorem scorer_formulas_witness:
  "sentiment (analyzeText (lit ''This is a great win for the team'')) = 1 / 2
   \<and> energy (analyzeText (lit ''This is a great win for the team'')) = 113 / 360"
  using scorer_formulas [of "lit ''This is a great win for the team''", unfolded tokens_great_win]
  by (simp add: POSITIVE_TERMS_def NEGATIVE_TERMS_def lit_def clamp_def)

lemma up_not_token: "lit ''up'' \<notin> set (clean_tokens content)"
proof
  assume "lit ''up'' \<in> set (clean_tokens content)"
  then have "keep_token (lit ''up'')" by (rule clean_tokens_keep)
  then show False by (simp add: keep_token_def lit_def)
qed

lemma hits_without_up:
  "hits (removeAll (lit ''up'') terms) (clean_tokens content) = hits terms (clean_tokens content)"
proof -
  have "filter (\<lambda>token. token \<in> set (removeAll (lit ''up'') terms)) (clean_tokens content)
        = filter (\<lambda>token. token \<in> set terms) (clean_tokens content)"
    using up_not_token [of content] by (intro filter_cong) auto
  then show ?thesis by (simp add: hits_def)
qed

text \<open>
  C10. No token equals "up", since a token is longer than two code units; so the positive
  term "up" never counts, and the analysis with "up" taken out of the positive term list
  is the analysis of the page.
\<close>

theorem up_never_counts:
  "lit ''up'' \<notin> set (clean_tokens content)
   \<and> analyzeWith (removeAll (lit ''up'') POSITIVE_TERMS) NEGATIVE_TERMS content
       = analyzeText content"
  by (simp add: up_not_token analyzeText_def analyzeWith_def sentiment_of_def hits_without_up
      Let_def)

theorem up_never_counts_witness:
  "lit ''up'' \<in> set POSITIVE_TERMS
   \<and> lit ''up'' \<notin> set (removeAll (lit ''up'') POSITIVE_TERMS)
   \<and> analyzeWith (removeAll (lit ''up'') POSITIVE_TERMS) NEGATIVE_TERMS
         (lit ''Things are looking up, up, up: a great win'')
       = analyzeText (lit ''Things are looking up, up, up: a great win'')"
  using up_never_counts [of "lit ''Things are looking up, up, up: a great win''"]
  by (simp add: POSITIVE_TERMS_def lit_def)

section \<open>The insight builder\<close>

lemma map_index_nth:
  "map_index f k xs = map (\<lambda>i. f (xs ! i) (k + i)) [0..<length xs]"
proof (induction xs arbitrary: k)
  case Nil
  then show ?case by simp
next
  case (Cons x xs)
  have "[0..<length (x # xs)] = 0 # map Suc [0..<length xs]"
    by (simp add: upt_conv_Cons map_Suc_upt del: upt_Suc)
  then show ?case by (simp add: Cons.IH comp_def)
qed

lemma map_ins_id_BASE:
  "map ins_id BASE_INSIGHTS =
     [lit ''baseline-velocity'', lit ''baseline-composure'', lit ''baseline-focus'']"
  by (simp add: BASE_INSIGHTS_def)

text \<open>
  C7. For every Analysis, and whatever the lower-casing \<open>lower\<close> of the runtime is: the
  insight list has at most five entries. Without keywords it is the three baseline
  insights (ids baseline-velocity, baseline-composure, baseline-focus) in their order.
  Otherwise it is the first five of the dynamic insights followed by the baseline
  insights, where the dynamic insight of the cluster at index \<open>i\<close> has the id
  "cluster-" followed by the lower-cased label, the pulse
  \<open>clamp (0.35 + score * 0.55 + i * 0.1) 0.2 0.95\<close> and the delta
  \<open>clamp (sentiment * 0.6 + score * 0.3 - i * 0.05) (-0.4) 0.4\<close>.
\<close>

theorem insights_shape:
  fixes a :: Analysis and lower :: "js_string \<Rightarrow> js_string"
  defines "dynamic \<equiv>
    map (\<lambda>i. \<lparr>ins_id = lit ''cluster-'' @ lower (cl_label (clusters a ! i)),
              ins_label = cl_label (clusters a ! i) @ lit '' Signal'',
              ins_detail = cl_summary (clusters a ! i),
              ins_pulse = clamp (0.35 + cl_score (clusters a ! i) * 0.55 + real i * 0.1) 0.2 0.95,
              ins_delta = clamp (sentiment a * 0.6 + cl_score (clusters a ! i) * 0.3 - real i * 0.05)
                            (- 0.4) 0.4\<rparr>)
        [0..<length (clusters a)]"
  shows "length (buildInsights lower a) \<le> 5
       \<and> map ins_id BASE_INSIGHTS =
           [lit ''baseline-velocity'', lit ''baseline-composure'', lit ''baseline-focus'']
       \<and> (if keywords_list a = [] then buildInsights lower a = BASE_INSIGHTS
          else buildInsights lower a = take 5 (dynamic @ BASE_INSIGHTS))"
proof -
  have "map_index (dynamic_insight lower a) 0 (clusters a) = dynamic"
    unfolding dynamic_def by (simp add: map_index_nth dynamic_insight_def)
  then have shape: "if keywords_list a = [] then buildInsights lower a = BASE_INSIGHTS
          else buildInsights lower a = take 5 (dynamic @ BASE_INSIGHTS)"
    by (simp add: buildInsights_def)
  have "length BASE_INSIGHTS = 3" by (simp add: BASE_INSIGHTS_def)
  moreover have "length (take 5 (dynamic @ BASE_INSIGHTS)) \<le> 5"
    by (simp only: length_take min.cobounded2)
  ultimately have "length (buildInsights lower a) \<le> 5"
    using shape by (simp split: if_splits)
  with shape map_ins_id_BASE show ?thesis by blast
qed

theorem insights_shape_witness:
  "buildInsights toLowerCase \<lparr>keywords_list = [], sentiment = 0, energy = 0, clusters = []\<rparr>
     = BASE_INSIGHTS
   \<and> buildInsights toLowerCase \<lparr>keywords_list = [lit ''team''], sentiment = 0.5, energy = 0.2,
        clusters = [\<lparr>cl_label = lit ''Team'', cl_score = 0.5, cl_summary = lit ''s''\<rparr>]\<rparr>
     = \<lparr>ins_id = lit ''cluster-team'', ins_label = lit ''Team Signal'', ins_detail = lit ''s'',
        ins_pulse = 0.625, ins_delta = 0.4\<rparr> # BASE_INSIGHTS
   \<and> map ins_id
        (buildInsights (map (\<lambda>c. if c = 201 then 233 else c))
           \<lparr>keywords_list = [lit ''cole''], sentiment = 0, energy = 0,
            clusters = [\<lparr>cl_label = 201 # lit ''cole'', cl_score = 0, cl_summary = []\<rparr>]\<rparr>)
     = [lit ''cluster-'' @ 233 # lit ''cole'', lit ''baseline-velocity'',
        lit ''baseline-composure'', lit ''baseline-focus'']"
  using insights_shape [where lower = toLowerCase
      and a = "\<lparr>keywords_list = [], sentiment = 0, energy = 0, clusters = []\<rparr>"]
    insights_shape [where lower = toLowerCase
      and a = "\<lparr>keywords_list = [lit ''team''], sentiment = 0.5, energy = 0.2,
        clusters = [\<lparr>cl_label = lit ''Team'', cl_score = 0.5, cl_summary = lit ''s''\<rparr>]\<rparr>"]
    insights_shape [where lower = "map (\<lambda>c. if c = 201 then 233 else c)"
      and a = "\<lparr>keywords_list = [lit ''cole''], sentiment = 0, energy = 0,
        clusters = [\<lparr>cl_label = 201 # lit ''cole'', cl_score = 0, cl_summary = []\<rparr>]\<rparr>"]
  by (simp add: lit_def toLowerCase_def lower_unit_def clamp_def BASE_INSIGHTS_def)

section \<open>The session state\<close>

text \<open>
  C6. A fragment that trims to the empty string leaves the whole state as it is: no
  segment is appended, the corpus, the reply and the analysis are unchanged. The
  transition is a total function, it has no failing branch.
\<close>

theorem blank_fragment_noop:
  "trim content = [] \<Longrightarrow>
     processChunk now content st = st
     \<and> segments (processChunk now content st) = segments st
     \<and> compiledText (processChunk now content st) = compiledText st
     \<and> agentReply (processChunk now content st) = agentReply st
     \<and> analysis (processChunk now content st) = analysis st"
  by (simp add: processChunk_def)

theorem blank_fragment_noop_witness:
  "trim [32, 9, 10, 160] = []
   \<and> processChunk \<lparr>at_id = 5, at_timestamp = 5, at_update = 5\<rparr> [32, 9, 10, 160] (initial_state 0)
       = initial_state 0"
proof -
  have t: "trim [32, 9, 10, 160] = []" by (simp add: trim_def is_space_def)
  from blank_fragment_noop [OF t] t show ?thesis by simp
qed

lemma slice_last_append:
  "slice_last n (slice_last n xs @ ys) = slice_last n (xs @ ys)"
proof (cases "length xs \<le> n")
  case True
  then show ?thesis by (simp add: slice_last_def)
next
  case False
  define k where "k = length xs - n"
  have k: "length xs = k + n" using False by (simp add: k_def)
  have "slice_last n (slice_last n xs @ ys) = drop (length ys) (drop k (xs @ ys))"
    by (simp add: slice_last_def k)
  also have "\<dots> = drop (length ys + k) (xs @ ys)"
    by (simp only: drop_drop)
  also have "\<dots> = slice_last n (xs @ ys)"
    by (simp add: slice_last_def k add.commute)
  finally show ?thesis .
qed

lemma length_slice_last: "length (slice_last n xs) \<le> n"
  by (simp add: slice_last_def)

lemma slice_last_id: "length xs \<le> n \<Longrightarrow> slice_last n xs = xs"
  by (simp add: slice_last_def)

lemma map_slice_last: "map f (slice_last n xs) = slice_last n (map f xs)"
  by (simp add: slice_last_def drop_map)

lemma segments_processChunk:
  "segments (processChunk now content st) =
     (if trim content = [] then segments st
      else slice_last 6 (segments st @ [new_segment now (segments st) (trim content)]))"
  by (simp add: processChunk_def Let_def)

lemma trail_run:
  "map text_and_time (segments (run st evs)) =
     slice_last 6 (map text_and_time (segments st) @ accepted evs)" if "length (segments st) \<le> 6"
  using that
proof (induction evs arbitrary: st)
  case Nil
  then show ?case by (simp add: accepted_def slice_last_id)
next
  case (Cons ev evs)
  obtain now content where ev: "ev = (now, content)" by (cases ev)
  let ?st = "processChunk now content st"
  have len: "length (segments ?st) \<le> 6"
    using Cons.prems by (simp add: segments_processChunk length_slice_last)
  show ?case
  proof (cases "trim content = []")
    case True
    then have "?st = st" by (simp add: processChunk_def)
    with Cons ev True show ?thesis by (simp add: accepted_def)
  next
    case False
    have "map text_and_time (segments ?st) =
            slice_last 6 (map text_and_time (segments st) @ [(trim content, at_timestamp now)])"
      using False by (simp add: segments_processChunk map_slice_last text_and_time_def new_segment_def)
    moreover have "accepted (ev # evs) = (trim content, at_timestamp now) # accepted evs"
      using False ev by (simp add: accepted_def)
    ultimately show ?thesis
      using Cons.IH [OF len] ev by (simp add: slice_last_append)
  qed
qed

lemma length_trail_run: "length (segments st) \<le> 6 \<Longrightarrow> length (segments (run st evs)) \<le> 6"
proof (induction evs arbitrary: st)
  case Nil
  then show ?case by simp
next
  case (Cons ev evs)
  obtain now content where ev: "ev = (now, content)" by (cases ev)
  have "length (segments (processChunk now content st)) \<le> 6"
    using Cons.prems by (simp add: segments_processChunk length_slice_last)
  from Cons.IH [OF this] ev show ?case by simp
qed

lemma dropWhile_no_space: "\<forall>c\<in>set w. \<not> is_space c \<Longrightarrow> dropWhile is_space w = w"
  by (cases w) simp_all

lemma trim_one_word: "one_word w \<Longrightarrow> trim w = w"
proof -
  assume "one_word w"
  then have w: "\<forall>c\<in>set w. \<not> is_space c" by (simp add: one_word_def list_all_iff)
  then have "\<forall>c\<in>set (rev w). \<not> is_space c" by simp
  then have "dropWhile is_space (rev w) = rev w" by (rule dropWhile_no_space)
  with dropWhile_no_space [OF w] show ?thesis by (simp add: trim_def)
qed

lemma accepted_one_word:
  "list_all (\<lambda>ev. one_word (snd ev)) evs \<Longrightarrow> map fst (accepted evs) = map snd evs"
  by (induction evs) (auto simp: accepted_def trim_one_word one_word_def)

text \<open>
  C5. In every session from the initial state the trail has at most six segments, and
  its texts and timestamps are the last six accepted fragments in the order of their
  acceptance (the oldest leave first). After eight one-word fragments the trail holds
  the third to the eighth, in that order.
\<close>

theorem trail_fifo:
  fixes evs :: "(Clock_reads \<times> js_string) list" and t0 :: int
  defines "st \<equiv> run (initial_state t0) evs"
  shows "length (segments st) \<le> 6
       \<and> map text_and_time (segments st) = slice_last 6 (accepted evs)
       \<and> (length evs = 8 \<and> list_all (\<lambda>ev. one_word (snd ev)) evs
            \<longrightarrow> map seg_text (segments st) = drop 2 (map snd evs))"
proof -
  have init: "length (segments (initial_state t0)) \<le> 6" by (simp add: initial_state_def)
  have tt: "map text_and_time (segments st) = slice_last 6 (accepted evs)"
    unfolding st_def using trail_run [OF init, of evs] by (simp add: initial_state_def)
  have "map seg_text (segments st) = drop 2 (map snd evs)"
    if "length evs = 8" and "list_all (\<lambda>ev. one_word (snd ev)) evs"
  proof -
    have "map seg_text (segments st) = map fst (map text_and_time (segments st))"
      by (simp add: text_and_time_def comp_def)
    also have "\<dots> = slice_last 6 (map fst (accepted evs))"
      by (simp add: tt map_slice_last)
    also have "\<dots> = drop 2 (map snd evs)"
      using that by (simp add: accepted_one_word slice_last_def)
    finally show ?thesis .
  qed
  with tt length_trail_run [OF init, of evs] show ?thesis unfolding st_def by blast
qed

theorem trail_fifo_witness:
  "map seg_text (segments (run (initial_state 0) eight_words))
     = [lit ''three'', lit ''four'', lit ''five'', lit ''six'', lit ''seven'', lit ''eight'']"
proof -
  have "length eight_words = 8" by (simp add: eight_words_def)
  moreover have "list_all (\<lambda>ev. one_word (snd ev)) eight_words"
    by (simp add: eight_words_def one_word_def lit_def is_space_def)
  ultimately have "map seg_text (segments (run (initial_state 0) eight_words))
      = drop 2 (map snd eight_words)"
    using trail_fifo [of 0 eight_words] by blast
  then show ?thesis by (simp add: eight_words_def)
qed

text \<open>
  C1. The id of a new segment is the clock reading followed by the length of the trail
  before the append. The trail is cut to six, so from the seventh fragment on that
  length is always 6: the seventh and the eighth fragment of \<open>eight_words\<close>,
  accepted in the same millisecond, get the same id, and both are in the trail.
\<close>

theorem same_millisecond_ids_collide:
  "map seg_id (segments (run (initial_state 0) eight_words))
     = [lit ''1002-2'', lit ''1003-3'', lit ''1004-4'', lit ''1005-5'', lit ''1006-6'', lit ''1006-6'']
   \<and> \<not> distinct (map seg_id (segments (run (initial_state 0) eight_words)))"
proof -
  have ids: "map seg_id (segments (run (initial_state 0) eight_words))
     = [lit ''1002-2'', lit ''1003-3'', lit ''1004-4'', lit ''1005-5'', lit ''1006-6'', lit ''1006-6'']"
    by (simp add: eight_words_def segments_processChunk lit_def trim_def is_space_def
        initial_state_def new_segment_def slice_last_def all_at_def number_to_string_def
        digits.simps)
  show ?thesis by (simp add: ids)
qed

lemma compiledText_processChunk:
  "compiledText (processChunk now content st) =
     (if trim content = [] then compiledText st
      else if compiledText st \<noteq> [] then compiledText st @ lit '' '' @ trim content
      else trim content)"
  by (simp add: processChunk_def Let_def)

lemma sentiment_great_win:
  "sentiment (analyzeText (lit ''This is a great win for the team'')) = 1 / 2"
  unfolding analyzeText_def sentiment_analyzeWith tokens_great_win
  by (simp add: sentiment_of_def hits_def POSITIVE_TERMS_def NEGATIVE_TERMS_def lit_def clamp_def)

lemma sentiment_great_win_risk:
  "sentiment (analyzeText (lit ''This is a great win for the team but I'm worried about the risk''))
     = 1 / 7"
  unfolding analyzeText_def sentiment_analyzeWith tokens_great_win_risk
  by (simp add: sentiment_of_def hits_def POSITIVE_TERMS_def NEGATIVE_TERMS_def lit_def clamp_def)

text \<open>
  C9. From the initial state, "This is a great win for the team" gives a corpus of
  sentiment 1/2, above 0; "but I'm worried about the risk" then gives a corpus of
  sentiment 1/7, below the first and within [-1, 1].
\<close>

theorem great_win_then_risk:
  fixes now1 now2 :: Clock_reads and t0 :: int
  defines "st1 \<equiv> processChunk now1 (lit ''This is a great win for the team'') (initial_state t0)"
  defines "st2 \<equiv> processChunk now2 (lit ''but I'm worried about the risk'') st1"
  shows "compiledText st1 = lit ''This is a great win for the team''
       \<and> compiledText st2 = lit ''This is a great win for the team but I'm worried about the risk''
       \<and> sentiment (analysis st1) = 1 / 2
       \<and> sentiment (analysis st2) = 1 / 7
       \<and> 0 < sentiment (analysis st1)
       \<and> sentiment (analysis st2) < sentiment (analysis st1)
       \<and> - 1 \<le> sentiment (analysis st2) \<and> sentiment (analysis st2) \<le> 1"
proof -
  have c1: "compiledText st1 = lit ''This is a great win for the team''"
    unfolding st1_def compiledText_processChunk
    by (simp add: initial_state_def trim_def lit_def is_space_def)
  have c2: "compiledText st2 = lit ''This is a great win for the team but I'm worried about the risk''"
    unfolding st2_def compiledText_processChunk c1
    by (simp add: trim_def lit_def is_space_def)
  have "sentiment (analysis st1) = 1 / 2"
    by (simp only: analysis_def c1 sentiment_great_win)
  moreover have "sentiment (analysis st2) = 1 / 7"
    by (simp only: analysis_def c2 sentiment_great_win_risk)
  ultimately show ?thesis using c1 c2 by simp
qed

section \<open>The keyword extractor\<close>

lemma first_index_less: "x \<in> set xs \<Longrightarrow> first_index xs x < length xs"
  by (induction xs) (auto simp: first_index_def)

lemma first_index_append_old: "x \<in> set xs \<Longrightarrow> first_index (xs @ ys) x = first_index xs x"
  by (induction xs) (auto simp: first_index_def)

lemma first_index_append_new: "x \<notin> set xs \<Longrightarrow> first_index (xs @ [x]) x = length xs"
  by (induction xs) (auto simp: first_index_def)

lemma frequency_snoc: "frequency (clean @ [t]) = frequency_step (frequency clean) t"
  by (simp add: frequency_def)

lemma frequency_keys:
  "distinct (map fst (frequency clean)) \<and> fst ` set (frequency clean) = set clean"
proof (induction clean rule: rev_induct)
  case Nil
  then show ?case by (simp add: frequency_def)
next
  case (snoc t clean)
  then show ?case
    by (simp add: frequency_snoc frequency_step_def AList.distinct_update AList.dom_update)
qed

lemma frequency_counts:
  "map_of (frequency clean) t = (if t \<in> set clean then Some (count_list clean t) else None)"
proof (induction clean rule: rev_induct)
  case Nil
  then show ?case by (simp add: frequency_def)
next
  case (snoc u clean)
  then show ?case
    by (auto simp: frequency_snoc frequency_step_def AList.update_conv' count_list_0_iff)
qed

lemma frequency_first_seen:
  "sorted_wrt (\<lambda>a b. first_index clean a < first_index clean b) (map fst (frequency clean))"
proof (induction clean rule: rev_induct)
  case Nil
  then show ?case by (simp add: frequency_def)
next
  case (snoc t clean)
  let ?K = "map fst (frequency clean)"
  have K: "fst ` set (frequency clean) = set clean" using frequency_keys [of clean] by simp
  have old: "sorted_wrt (\<lambda>a b. first_index (clean @ [t]) a < first_index (clean @ [t]) b) ?K"
    using snoc.IH
    by (rule sorted_wrt_mono_rel [rotated]) (simp add: K first_index_append_old)
  show ?case
  proof (cases "t \<in> set clean")
    case True
    then show ?thesis
      using old by (simp add: frequency_snoc frequency_step_def AList.update_keys K)
  next
    case False
    have "\<forall>x\<in>set ?K. first_index (clean @ [t]) x < first_index (clean @ [t]) t"
      using False by (simp add: K first_index_append_old first_index_append_new first_index_less)
    then show ?thesis
      using old False
      by (simp add: frequency_snoc frequency_step_def AList.update_keys K sorted_wrt_append)
  qed
qed

lemma set_insert_cmp: "set (insert_cmp cmp x ys) = insert x (set ys)"
  by (induction ys) auto

lemma set_sort_cmp: "set (sort_cmp cmp xs) = set xs"
  by (induction xs) (auto simp: set_insert_cmp)

lemma distinct_keys_insert_cmp:
  "distinct (map f (insert_cmp cmp x ys)) \<longleftrightarrow> f x \<notin> f ` set ys \<and> distinct (map f ys)"
  by (induction ys) (auto simp: set_insert_cmp)

lemma distinct_keys_sort_cmp: "distinct (map f (sort_cmp cmp xs)) \<longleftrightarrow> distinct (map f xs)"
  by (induction xs) (auto simp: distinct_keys_insert_cmp set_sort_cmp)

lemma count_then_insert:
  "sorted_wrt (count_then R) ys \<Longrightarrow> \<forall>y\<in>set ys. R x y \<Longrightarrow>
     sorted_wrt (count_then R) (insert_cmp by_count_desc x ys)"
proof (induction ys)
  case Nil
  then show ?case by simp
next
  case (Cons y ys)
  show ?case
  proof (cases "by_count_desc x y \<le> 0")
    case True
    then have xy: "snd y \<le> snd x" by (simp add: by_count_desc_def)
    have "count_then R x z" if "z \<in> set (y # ys)" for z
    proof -
      have "snd z \<le> snd y" using that Cons.prems(1) by (auto simp: count_then_def)
      with xy have "snd z \<le> snd x" by simp
      moreover have "R x z" using that Cons.prems(2) by auto
      ultimately show ?thesis by (auto simp: count_then_def)
    qed
    with True Cons.prems(1) show ?thesis by simp
  next
    case False
    then have "count_then R y x" by (simp add: by_count_desc_def count_then_def)
    with False Cons show ?thesis by (auto simp: set_insert_cmp)
  qed
qed

lemma count_then_sort:
  "sorted_wrt R xs \<Longrightarrow> sorted_wrt (count_then R) (sort_cmp by_count_desc xs)"
  by (induction xs) (auto simp: count_then_insert set_sort_cmp)

lemma ranking_of_frequency:
  fixes clean :: "js_string list"
  defines "ranked \<equiv> map fst (sort_cmp by_count_desc (frequency clean))"
  shows "distinct ranked \<and> set ranked = set clean \<and> sorted_wrt (outranks clean) ranked"
proof -
  let ?E = "frequency clean"
  let ?S = "sort_cmp by_count_desc ?E"
  let ?R = "\<lambda>a b. first_index clean (fst a) < first_index clean (fst b)"
  have d: "distinct ranked"
    unfolding ranked_def using frequency_keys [of clean] by (simp add: distinct_keys_sort_cmp)
  have s: "set ranked = set clean"
    unfolding ranked_def using frequency_keys [of clean] by (simp add: set_sort_cmp)
  have cnt: "snd e = count_list clean (fst e)" if "e \<in> set ?E" for e
  proof -
    from that frequency_keys [of clean] have "map_of ?E (fst e) = Some (snd e)" by simp
    moreover from that frequency_keys [of clean] have "fst e \<in> set clean" by force
    ultimately show ?thesis by (simp add: frequency_counts)
  qed
  have "sorted_wrt ?R ?E"
    using frequency_first_seen [of clean] by (simp add: sorted_wrt_map)
  then have "sorted_wrt (count_then ?R) ?S" by (rule count_then_sort)
  then have "sorted_wrt (\<lambda>a b. outranks clean (fst a) (fst b)) ?S"
    by (rule sorted_wrt_mono_rel [rotated])
       (auto simp: count_then_def outranks_def set_sort_cmp cnt)
  then have "sorted_wrt (outranks clean) ranked"
    unfolding ranked_def by (simp add: sorted_wrt_map)
  with d s show ?thesis by blast
qed

text \<open>
  C4. The keyword list is the first six entries of the list of the distinct tokens
  ordered by descending occurrence count, tokens of equal count in the order in which
  they are first seen; it has no duplicates, at most six entries, and all of them are
  tokens. (The statement holds for every text; without tokens both lists are empty.)
\<close>

theorem keywords_top_six:
  fixes content :: js_string
  defines "clean \<equiv> clean_tokens content"
  defines "kws \<equiv> keywords_list (analyzeText content)"
  shows "(\<exists>ranked. distinct ranked \<and> set ranked = set clean
             \<and> sorted_wrt (outranks clean) ranked \<and> kws = take 6 ranked)
       \<and> distinct kws \<and> length kws \<le> 6 \<and> set kws \<subseteq> set clean"
proof -
  define ranked where "ranked = map fst (sort_cmp by_count_desc (frequency clean))"
  have r: "distinct ranked \<and> set ranked = set clean \<and> sorted_wrt (outranks clean) ranked"
    unfolding ranked_def by (rule ranking_of_frequency)
  have k: "kws = take 6 ranked"
  proof (cases "clean = []")
    case True
    with r have "ranked = []" by simp
    with True show ?thesis
      unfolding kws_def clean_def by (simp add: analyzeText_def analyzeWith_def)
  next
    case False
    then show ?thesis
      unfolding kws_def clean_def ranked_def
      by (simp add: analyzeText_def analyzeWith_def Let_def extract_keywords_def take_map)
  qed
  have "set (take 6 ranked) \<subseteq> set ranked" by (rule set_take_subset)
  with r k have "distinct kws \<and> length kws \<le> 6 \<and> set kws \<subseteq> set clean" by simp
  with r k show ?thesis by blast
qed

lemma tokens_greek:
  "clean_tokens (lit ''Alpha beta, gamma beta delta alpha; epsilon zeta eta beta theta.'')
     = [lit ''alpha'', lit ''beta'', lit ''gamma'', lit ''beta'', lit ''delta'', lit ''alpha'',
        lit ''epsilon'', lit ''zeta'', lit ''eta'', lit ''beta'', lit ''theta'']"
  by (simp add: normalizer_defs)

lemma keywords_greek:
  "keywords_list (analyzeText (lit ''Alpha beta, gamma beta delta alpha; epsilon zeta eta beta theta.''))
     = [lit ''beta'', lit ''alpha'', lit ''gamma'', lit ''delta'', lit ''epsilon'', lit ''zeta'']"
  unfolding analyzeText_def analyzeWith_def tokens_greek Let_def
  by (simp add: extract_keywords_def frequency_def frequency_step_def by_count_desc_def lit_def)

theorem keywords_top_six_witness:
  "keywords_list (analyzeText (lit ''Alpha beta, gamma beta delta alpha; epsilon zeta eta beta theta.''))
     = [lit ''beta'', lit ''alpha'', lit ''gamma'', lit ''delta'', lit ''epsilon'', lit ''zeta'']
   \<and> (\<exists>ranked. distinct ranked
         \<and> set ranked = set [lit ''alpha'', lit ''beta'', lit ''gamma'', lit ''beta'', lit ''delta'',
               lit ''alpha'', lit ''epsilon'', lit ''zeta'', lit ''eta'', lit ''beta'', lit ''theta'']
         \<and> sorted_wrt (outranks [lit ''alpha'', lit ''beta'', lit ''gamma'', lit ''beta'',
               lit ''delta'', lit ''alpha'', lit ''epsilon'', lit ''zeta'', lit ''eta'', lit ''beta'',
               lit ''theta'']) ranked
         \<and> [lit ''beta'', lit ''alpha'', lit ''gamma'', lit ''delta'', lit ''epsilon'', lit ''zeta'']
             = take 6 ranked)"
  using keywords_top_six
    [of "lit ''Alpha beta, gamma beta delta alpha; epsilon zeta eta beta theta.''"]
  unfolding keywords_greek tokens_greek by blast

end
